theory Spec2Isabelle
  imports Complex_Main
begin

section \<open>The ARWN sensor platform (homeassistant/components/arwn/sensor.py)\<close>

text \<open>
  The platform subscribes to \<^verbatim>\<open>arwn/#\<close>, maps each message to zero, one or several
  sensors by the shape of its topic (\<^verbatim>\<open>discover_sensors\<close>), keeps the sensors it has
  seen in \<^verbatim>\<open>hass.data["arwn"]\<close>, a dict keyed by the sensor's name, and hands each new
  sensor to the host. A sensor that the host has added subscribes to its own topic and
  replaces its event with every message it receives there.

  Python strings are lists of characters, dicts are maps, exceptions are values of type
  \<open>error\<close>, and every function that mutates an object returns the object it has changed.
\<close>

subsection \<open>Values\<close>

text \<open>
  What \<^verbatim>\<open>json.loads\<close> puts into a payload. Numbers are only stored and read back, never
  computed with; the platform compares a value only with the string \<^verbatim>\<open>"F"\<close>.
\<close>

datatype json =
    JNull
  | JBool bool
  | JNum rat
  | JStr string
  | JArr "json list"
  | JObj "(string \<times> json) list"

text \<open>
  A decoded payload is a JSON object with string keys: a Python dict. A payload that
  decodes to something else than an object is outside this model.
\<close>

type_synonym py_dict = "string \<rightharpoonup> json"

datatype error = IndexError | JSONDecodeError

subsection \<open>Names imported from the host\<close>

text \<open>
  Modelled from the spec: \<^verbatim>\<open>DEGREE\<close> of \<^verbatim>\<open>homeassistant.const\<close>, which is not among
  the sources. The spec calls it the degree symbol, a fixed string, not configurable: the
  character with code \<open>0xB0\<close>.
\<close>

definition DEGREE :: string where
  "DEGREE = [CHR 0xB0]"

text \<open>
  Modelled from the spec: \<^verbatim>\<open>TEMP_CELSIUS\<close> of \<^verbatim>\<open>homeassistant.const\<close>, the Celsius
  label of the spec, a fixed string.
\<close>

definition TEMP_CELSIUS :: string where
  "TEMP_CELSIUS = [CHR 0xB0, CHR ''C'']"

text \<open>
  Modelled from the spec: \<^verbatim>\<open>TEMP_FAHRENHEIT\<close> of \<^verbatim>\<open>homeassistant.const\<close>, the
  Fahrenheit label of the spec, a fixed string.
\<close>

definition TEMP_FAHRENHEIT :: string where
  "TEMP_FAHRENHEIT = [CHR 0xB0, CHR ''F'']"

text \<open>
  Modelled from the spec: the lower-casing that \<^verbatim>\<open>slugify\<close> does, on the ASCII letters.
\<close>

definition lower :: "char \<Rightarrow> char" where
  "lower c =
     (case map_of (zip ''ABCDEFGHIJKLMNOPQRSTUVWXYZ'' ''abcdefghijklmnopqrstuvwxyz'') c of
        None \<Rightarrow> c
      | Some l \<Rightarrow> l)"

text \<open>
  Modelled from the spec: the alphanumeric characters of \<^verbatim>\<open>slugify\<close>, the ASCII letters
  and digits.
\<close>

definition isalnum :: "char \<Rightarrow> bool" where
  "isalnum c =
     (c \<in> set ''abcdefghijklmnopqrstuvwxyzABCDEFGHIJKLMNOPQRSTUVWXYZ0123456789'')"

text \<open>
  Modelled from the spec: the pass of \<^verbatim>\<open>slugify\<close> over the text. An alphanumeric
  character is kept, in lower case; a run of other characters becomes one underscore.
  \<open>in_run\<close> holds while the characters just read were not alphanumeric.
\<close>

fun slugify_from :: "bool \<Rightarrow> string \<Rightarrow> string" where
  "slugify_from in_run [] = []"
| "slugify_from in_run (c # cs) =
     (if isalnum c then lower c # slugify_from False cs
      else if in_run then slugify_from True cs
      else CHR ''_'' # slugify_from True cs)"

text \<open>
  Modelled from the spec: \<^verbatim>\<open>homeassistant.util.slugify\<close>, which is not among the
  sources. The spec: slugification lower-cases and replaces non-alphanumeric runs with
  single separators.
\<close>

definition slugify :: "string \<Rightarrow> string" where
  "slugify text = slugify_from False text"

subsection \<open>Python primitives\<close>

text \<open>
  \<^verbatim>\<open>str.split(sep)\<close> for a separator of one character: \<open>n\<close> separators give \<open>n + 1\<close>
  parts, some of them empty; the empty string gives one empty part. \<open>acc\<close> holds the
  part being read, reversed.
\<close>

fun split_from :: "char \<Rightarrow> string \<Rightarrow> string \<Rightarrow> string list" where
  "split_from sep acc [] = [rev acc]"
| "split_from sep acc (c # cs) =
     (if c = sep then rev acc # split_from sep [] cs
      else split_from sep (c # acc) cs)"

definition split :: "string \<Rightarrow> char \<Rightarrow> string list" where
  "split s sep = split_from sep [] s"

text \<open>\<^verbatim>\<open>xs[i]\<close> for \<open>i \<ge> 0\<close>: IndexError past the end.\<close>

definition index :: "'a list \<Rightarrow> nat \<Rightarrow> error + 'a" where
  "index xs i = (if i < length xs then Inr (xs ! i) else Inl IndexError)"

text \<open>\<^verbatim>\<open>d.get(key, default)\<close>.\<close>

definition get :: "('k \<rightharpoonup> 'v) \<Rightarrow> 'k \<Rightarrow> 'v \<Rightarrow> 'v" where
  "get d key dflt = (case d key of None \<Rightarrow> dflt | Some v \<Rightarrow> v)"

subsection \<open>The sensor\<close>

text \<open>
  \<^verbatim>\<open>class ArwnSensor\<close>. The fields are the attributes that \<^verbatim>\<open>__init__\<close> sets, in its
  order; \<open>self_hass\<close> tells whether \<^verbatim>\<open>self.hass\<close> has been set. The unit is a payload
  value, since \<^verbatim>\<open>discover_sensors\<close> passes on whatever the payload holds under
  \<^verbatim>\<open>units\<close>.
\<close>

record ArwnSensor =
  self_hass :: bool
  self_entity_id :: string
  self_name :: string
  self_state_key :: string
  self_event :: py_dict
  self_unit_of_measurement :: json
  self_icon :: "string option"
  self_topic :: string

definition slug :: "string \<Rightarrow> string" where
  "slug nm = ''sensor.arwn_'' @ slugify nm"

definition ArwnSensor_init ::
  "string \<Rightarrow> string \<Rightarrow> json \<Rightarrow> string \<Rightarrow> string option \<Rightarrow> ArwnSensor" where
  "ArwnSensor_init nm state_key units topic icon =
     \<lparr> self_hass = False,
       self_entity_id = slug nm,
       self_name = nm,
       self_state_key = state_key,
       self_event = Map.empty,
       self_unit_of_measurement = units,
       self_icon = icon,
       self_topic = topic \<rparr>"

text \<open>
  \<^verbatim>\<open>set_event\<close>: a fresh dict, filled from the event, then \<^verbatim>\<open>async_write_ha_state()\<close>.
  The second component lists the entities whose state has been written to the host.
\<close>

definition set_event :: "ArwnSensor \<Rightarrow> py_dict \<Rightarrow> ArwnSensor \<times> string list" where
  "set_event self ev = (self\<lparr>self_event := Map.empty ++ ev\<rparr>, [self_entity_id self])"

text \<open>The property \<^verbatim>\<open>state\<close>: \<^verbatim>\<open>self.event.get(self._state_key, None)\<close>.\<close>

definition state :: "ArwnSensor \<Rightarrow> json option" where
  "state self = self_event self (self_state_key self)"

definition state_attributes :: "ArwnSensor \<Rightarrow> py_dict" where
  "state_attributes self = self_event self"

subsection \<open>Classification\<close>

text \<open>
  \<^verbatim>\<open>discover_sensors\<close> returns one sensor, a tuple of sensors, or nothing (None).
\<close>

datatype sensors = NoSensor | Single ArwnSensor | Tuple "ArwnSensor list"

definition discover_sensors :: "string \<Rightarrow> py_dict \<Rightarrow> error + sensors" where
  "discover_sensors topic payload =
     (let parts = split topic CHR ''/'';
          unit = get payload ''units'' (JStr '''')
      in case index parts 1 of
           Inl e \<Rightarrow> Inl e
         | Inr domain \<Rightarrow>
             if domain = ''temperature'' then
               (case index parts 2 of
                  Inl e \<Rightarrow> Inl e
                | Inr nm \<Rightarrow>
                    Inr (Single (ArwnSensor_init nm ''temp''
                      (if unit = JStr ''F'' then JStr TEMP_FAHRENHEIT else JStr TEMP_CELSIUS)
                      topic None)))
             else if domain = ''moisture'' then
               (case index parts 2 of
                  Inl e \<Rightarrow> Inl e
                | Inr p2 \<Rightarrow>
                    Inr (Single (ArwnSensor_init (p2 @ '' Moisture'') ''moisture'' unit
                      topic (Some ''mdi:water-percent''))))
             else if domain = ''rain'' then
               (if 3 \<le> length parts \<and> parts ! 2 = ''today'' then
                  Inr (Single (ArwnSensor_init ''Rain Since Midnight'' ''since_midnight''
                    (JStr ''in'') topic (Some ''mdi:water'')))
                else
                  Inr (Tuple
                    [ArwnSensor_init ''Total Rainfall'' ''total'' unit topic (Some ''mdi:water''),
                     ArwnSensor_init ''Rainfall Rate'' ''rate'' unit topic (Some ''mdi:water'')]))
             else if domain = ''barometer'' then
               Inr (Single (ArwnSensor_init ''Barometer'' ''pressure'' unit topic
                 (Some ''mdi:thermometer-lines'')))
             else if domain = ''wind'' then
               Inr (Tuple
                 [ArwnSensor_init ''Wind Speed'' ''speed'' unit topic (Some ''mdi:speedometer''),
                  ArwnSensor_init ''Wind Gust'' ''gust'' unit topic (Some ''mdi:speedometer''),
                  ArwnSensor_init ''Wind Direction'' ''direction'' (JStr DEGREE) topic
                    (Some ''mdi:compass'')])
             else Inr NoSensor)"

subsection \<open>The host and the two callbacks\<close>

text \<open>
  A message of the transport: its topic and its payload, still text. \<^verbatim>\<open>json.loads\<close> is
  a parameter of the callbacks: a function that gives the decoded dict, or None where
  Python raises JSONDecodeError.
\<close>

record msg =
  msg_topic :: string
  msg_payload :: string

text \<open>
  What the platform reads and writes of \<^verbatim>\<open>hass\<close>: \<open>data_arwn\<close> is
  \<^verbatim>\<open>hass.data.get("arwn")\<close>, the store keyed by sensor name; \<open>added_entities\<close> lists
  the sensors given to \<^verbatim>\<open>async_add_entities\<close>, by their key in the store (the object
  added is the object stored); \<open>states_written\<close> lists the calls of
  \<^verbatim>\<open>async_write_ha_state\<close>, by entity id; \<open>debug_log\<close> is what \<^verbatim>\<open>_LOGGER.debug\<close> has
  been given.
\<close>

record hass =
  data_arwn :: "(string \<rightharpoonup> ArwnSensor) option"
  added_entities :: "string list"
  states_written :: "string list"
  debug_log :: "(string \<times> py_dict) list"

definition hass_init :: hass where
  "hass_init = \<lparr> data_arwn = None, added_entities = [], states_written = [], debug_log = [] \<rparr>"

text \<open>The store a callback works on: the dict under \<^verbatim>\<open>"arwn"\<close>, or a new empty one.\<close>

definition store_of :: "hass \<Rightarrow> (string \<rightharpoonup> ArwnSensor)" where
  "store_of h = (case data_arwn h of None \<Rightarrow> Map.empty | Some store \<Rightarrow> store)"

text \<open>\<^verbatim>\<open>if "timestamp" in event: del event["timestamp"]\<close>.\<close>

definition del_timestamp :: "py_dict \<Rightarrow> py_dict" where
  "del_timestamp ev = (if ev ''timestamp'' \<noteq> None then ev(''timestamp'' := None) else ev)"

text \<open>Truth value of what \<^verbatim>\<open>discover_sensors\<close> returned: None and the empty tuple are false.\<close>

fun truthy :: "sensors \<Rightarrow> bool" where
  "truthy NoSensor = False"
| "truthy (Single s) = True"
| "truthy (Tuple ss) = (ss \<noteq> [])"

text \<open>\<^verbatim>\<open>if isinstance(sensors, ArwnSensor): sensors = (sensors,)\<close>.\<close>

fun as_tuple :: "sensors \<Rightarrow> ArwnSensor list" where
  "as_tuple NoSensor = []"
| "as_tuple (Single s) = [s]"
| "as_tuple (Tuple ss) = ss"

text \<open>The body of the loop over the sensors found, lines 91 to 99.\<close>

definition register :: "py_dict \<Rightarrow> hass \<Rightarrow> ArwnSensor \<Rightarrow> hass" where
  "register ev h sensor =
     (let store = store_of h in
      if store (self_name sensor) \<noteq> None then h
      else
        (let (sensor', written) = set_event (sensor\<lparr>self_hass := True\<rparr>) ev
         in h\<lparr> data_arwn := Some (store(self_name sensor \<mapsto> sensor')),
               states_written := states_written h @ written,
               debug_log := debug_log h @ [(self_name sensor, ev)],
               added_entities := added_entities h @ [self_name sensor] \<rparr>))"

text \<open>
  \<^verbatim>\<open>async_sensor_event_received\<close>, the callback on \<^verbatim>\<open>arwn/#\<close>. It returns what the call
  gave (an exception, or nothing) and the host as the call left it. Both exceptions
  happen before the first write.
\<close>

definition async_sensor_event_received ::
  "(string \<Rightarrow> py_dict option) \<Rightarrow> hass \<Rightarrow> msg \<Rightarrow> (error + unit) \<times> hass" where
  "async_sensor_event_received json_loads h m =
     (case json_loads (msg_payload m) of
        None \<Rightarrow> (Inl JSONDecodeError, h)
      | Some ev \<Rightarrow>
          (case discover_sensors (msg_topic m) ev of
             Inl e \<Rightarrow> (Inl e, h)
           | Inr found \<Rightarrow>
               if \<not> truthy found then (Inr (), h)
               else
                 (let h1 = h\<lparr>data_arwn := Some (store_of h)\<rparr>;
                      ev' = del_timestamp ev
                  in (Inr (), foldl (register ev') h1 (as_tuple found)))))"

text \<open>
  \<^verbatim>\<open>message_received\<close>, the callback of one sensor on its own topic: the sensor as the
  call left it, and the state writes.
\<close>

definition message_received ::
  "(string \<Rightarrow> py_dict option) \<Rightarrow> ArwnSensor \<Rightarrow> msg \<Rightarrow> (error + unit) \<times> ArwnSensor \<times> string list" where
  "message_received json_loads self m =
     (case json_loads (msg_payload m) of
        None \<Rightarrow> (Inl JSONDecodeError, self, [])
      | Some ev \<Rightarrow> (Inr (), set_event self (del_timestamp ev)))"

subsection \<open>Runs\<close>

text \<open>
  The transport calls one callback at a time: the router's, or the one of a sensor in the
  store (a sensor subscribes once the host has added it, and the host is given a sensor
  in the same step that stores it). Which messages reach which callback is the
  transport's business, so a run may deliver any message to either. A call that raises
  ends there; the subscriptions stay, and the next message is delivered as usual.
\<close>

datatype delivery = ToRouter msg | ToSensor string msg

fun deliver :: "(string \<Rightarrow> py_dict option) \<Rightarrow> hass \<Rightarrow> delivery \<Rightarrow> hass" where
  "deliver json_loads h (ToRouter m) = snd (async_sensor_event_received json_loads h m)"
| "deliver json_loads h (ToSensor key m) =
     (case store_of h key of
        None \<Rightarrow> h
      | Some self \<Rightarrow>
          (let (result, self', written) = message_received json_loads self m
           in h\<lparr> data_arwn := Some ((store_of h)(key \<mapsto> self')),
                 states_written := states_written h @ written \<rparr>))"

definition run :: "(string \<Rightarrow> py_dict option) \<Rightarrow> hass \<Rightarrow> delivery list \<Rightarrow> hass" where
  "run json_loads h ds = foldl (deliver json_loads) h ds"

subsection \<open>Predicates on the host's state\<close>

text \<open>
  \<open>grows h h'\<close>: from \<open>h\<close> to \<open>h'\<close> the host was given sensors under keys the store
  did not have, each once, the store gained exactly these keys, and a sensor the store
  had is still there, the same but for its event.
\<close>

definition grows :: "hass \<Rightarrow> hass \<Rightarrow> bool" where
  "grows h h' \<longleftrightarrow>
     (\<exists>new. added_entities h' = added_entities h @ new \<and> distinct new
        \<and> set new \<inter> dom (store_of h) = {}
        \<and> dom (store_of h') = dom (store_of h) \<union> set new
        \<and> (\<forall>n\<in>dom (store_of h). \<exists>s s'. store_of h n = Some s \<and> store_of h' n = Some s'
              \<and> s'\<lparr>self_event := self_event s\<rparr> = s))"

text \<open>\<open>keyed h\<close>: every sensor of the store is stored under its own name.\<close>

definition keyed :: "hass \<Rightarrow> bool" where
  "keyed h \<longleftrightarrow> (\<forall>n s. store_of h n = Some s \<longrightarrow> self_name s = n)"

section \<open>Properties\<close>

subsection \<open>The loop over the sensors found\<close>

lemma store_of_register:
  "store_of (register ev h s) =
     (if store_of h (self_name s) \<noteq> None then store_of h
      else (store_of h)(self_name s \<mapsto> s\<lparr>self_hass := True, self_event := ev\<rparr>))"
  by (simp add: register_def set_event_def store_of_def Let_def)

lemma added_register:
  "added_entities (register ev h s) =
     (if store_of h (self_name s) \<noteq> None then added_entities h
      else added_entities h @ [self_name s])"
  by (simp add: register_def set_event_def Let_def)

lemma grows_refl: "grows h h"
  unfolding grows_def by (rule exI [of _ "[]"]) auto

lemma grows_trans:
  assumes "grows h h'" and "grows h' h''"
  shows "grows h h''"
proof -
  from assms(1) obtain new1 where a1: "added_entities h' = added_entities h @ new1"
    and d1: "distinct new1" and i1: "set new1 \<inter> dom (store_of h) = {}"
    and s1: "dom (store_of h') = dom (store_of h) \<union> set new1"
    and k1: "\<forall>n\<in>dom (store_of h). \<exists>s s'. store_of h n = Some s \<and> store_of h' n = Some s'
              \<and> s'\<lparr>self_event := self_event s\<rparr> = s"
    unfolding grows_def by blast
  from assms(2) obtain new2 where a2: "added_entities h'' = added_entities h' @ new2"
    and d2: "distinct new2" and i2: "set new2 \<inter> dom (store_of h') = {}"
    and s2: "dom (store_of h'') = dom (store_of h') \<union> set new2"
    and k2: "\<forall>n\<in>dom (store_of h'). \<exists>s s'. store_of h' n = Some s \<and> store_of h'' n = Some s'
              \<and> s'\<lparr>self_event := self_event s\<rparr> = s"
    unfolding grows_def by blast
  have "added_entities h'' = added_entities h @ (new1 @ new2)"
    using a1 a2 by simp
  moreover have "distinct (new1 @ new2)"
    using d1 d2 i2 s1 by auto
  moreover have "set (new1 @ new2) \<inter> dom (store_of h) = {}"
    using i1 i2 s1 by auto
  moreover have "dom (store_of h'') = dom (store_of h) \<union> set (new1 @ new2)"
    using s1 s2 by auto
  moreover have "\<forall>n\<in>dom (store_of h). \<exists>s s'. store_of h n = Some s \<and> store_of h'' n = Some s'
              \<and> s'\<lparr>self_event := self_event s\<rparr> = s"
  proof
    fix n
    assume n: "n \<in> dom (store_of h)"
    with k1 obtain s s' where 1: "store_of h n = Some s" "store_of h' n = Some s'"
      "s'\<lparr>self_event := self_event s\<rparr> = s"
      by blast
    from n s1 have "n \<in> dom (store_of h')"
      by auto
    with k2 1 obtain s'' where 2: "store_of h'' n = Some s''"
      "s''\<lparr>self_event := self_event s'\<rparr> = s'"
      by fastforce
    from 2(2) 1(3) have "s''\<lparr>self_event := self_event s\<rparr> = s"
      by (metis ArwnSensor.update_convs(5) ArwnSensor.surjective)
    with 1 2 show "\<exists>s s'. store_of h n = Some s \<and> store_of h'' n = Some s'
              \<and> s'\<lparr>self_event := self_event s\<rparr> = s"
      by blast
  qed
  ultimately show ?thesis
    unfolding grows_def by blast
qed

lemma grows_register: "grows h (register ev h s)"
proof (cases "store_of h (self_name s) \<noteq> None")
  case True
  then have "register ev h s = h"
    by (simp add: register_def Let_def)
  then show ?thesis
    by (simp add: grows_refl)
next
  case False
  then show ?thesis
    unfolding grows_def
    by (intro exI [of _ "[self_name s]"]) (auto simp add: store_of_register added_register)
qed

lemma grows_foldl_register: "grows h (foldl (register ev) h ss)"
proof (induction ss arbitrary: h)
  case Nil
  show ?case
    by (simp add: grows_refl)
next
  case (Cons s ss)
  show ?case
    using grows_trans [OF grows_register Cons.IH] by simp
qed

lemma keeps_register:
  "store_of h n \<noteq> None \<Longrightarrow> store_of (register ev h s) n = store_of h n"
  by (auto simp add: store_of_register)

lemma keeps_foldl_register:
  "store_of h n \<noteq> None \<Longrightarrow> store_of (foldl (register ev) h ss) n = store_of h n"
proof (induction ss arbitrary: h)
  case Nil
  show ?case
    by simp
next
  case (Cons s ss)
  from Cons.prems have "store_of (register ev h s) n = store_of h n"
    by (rule keeps_register)
  with Cons.prems Cons.IH [of "register ev h s"] show ?case
    by simp
qed

text \<open>A sensor that the loop has put into the store holds the event of this message.\<close>

lemma new_foldl_register:
  "store_of h n = None \<Longrightarrow> store_of (foldl (register ev) h ss) n = Some s
     \<Longrightarrow> self_event s = ev"
proof (induction ss arbitrary: h)
  case Nil
  then show ?case
    by simp
next
  case (Cons a ss)
  show ?case
  proof (cases "store_of (register ev h a) n = None")
    case True
    with Cons.IH [of "register ev h a"] Cons.prems(2) show ?thesis
      by simp
  next
    case False
    then have "store_of (foldl (register ev) (register ev h a) ss) n
                 = store_of (register ev h a) n"
      by (rule keeps_foldl_register)
    with Cons.prems(2) have "store_of (register ev h a) n = Some s"
      by simp
    with Cons.prems(1) show ?thesis
      by (auto simp add: store_of_register split: if_splits)
  qed
qed

lemma keyed_register: "keyed h \<Longrightarrow> keyed (register ev h s)"
  by (auto simp add: keyed_def store_of_register split: if_splits)

lemma keyed_foldl_register: "keyed h \<Longrightarrow> keyed (foldl (register ev) h ss)"
  by (induction ss arbitrary: h) (simp_all add: keyed_register)

subsection \<open>The callbacks and runs\<close>

lemma store_of_start: "store_of (h\<lparr>data_arwn := Some (store_of h)\<rparr>) = store_of h"
  by (simp add: store_of_def)

lemma grows_start: "grows h (h\<lparr>data_arwn := Some (store_of h)\<rparr>)"
  unfolding grows_def by (rule exI [of _ "[]"]) (auto simp add: store_of_start)

lemma grows_router: "grows h (snd (async_sensor_event_received json_loads h m))"
proof -
  have "grows h (foldl (register ev) (h\<lparr>data_arwn := Some (store_of h)\<rparr>) ss)" for ev ss
    using grows_trans [OF grows_start grows_foldl_register] .
  then show ?thesis
    by (simp add: async_sensor_event_received_def grows_refl Let_def
          split: option.splits sum.splits)
qed

lemma keeps_router:
  "store_of h n \<noteq> None
     \<Longrightarrow> store_of (snd (async_sensor_event_received json_loads h m)) n = store_of h n"
  by (simp add: async_sensor_event_received_def Let_def keeps_foldl_register store_of_start
        split: option.splits sum.splits)

lemma grows_sensor: "grows h (deliver json_loads h (ToSensor key m))"
proof (cases "store_of h key")
  case None
  then show ?thesis
    by (simp add: grows_refl)
next
  case (Some self)
  then show ?thesis
    unfolding grows_def
    by (intro exI [of _ "[]"])
       (auto simp add: message_received_def set_event_def store_of_def split: option.splits)
qed

lemma grows_deliver: "grows h (deliver json_loads h d)"
  by (cases d) (simp_all add: grows_router grows_sensor del: deliver.simps(2))

lemma grows_run: "grows h (run json_loads h ds)"
  unfolding run_def
proof (induction ds arbitrary: h)
  case Nil
  show ?case
    by (simp add: grows_refl)
next
  case (Cons d ds)
  show ?case
    using grows_trans [OF grows_deliver Cons.IH] by simp
qed

lemma keyed_router: "keyed h \<Longrightarrow> keyed (snd (async_sensor_event_received json_loads h m))"
proof -
  assume k: "keyed h"
  then have "keyed (h\<lparr>data_arwn := Some (store_of h)\<rparr>)"
    by (simp add: keyed_def store_of_start)
  then have "keyed (foldl (register ev) (h\<lparr>data_arwn := Some (store_of h)\<rparr>) ss)" for ev ss
    by (rule keyed_foldl_register)
  with k show ?thesis
    by (simp add: async_sensor_event_received_def Let_def split: option.splits sum.splits)
qed

lemma keyed_sensor: "keyed h \<Longrightarrow> keyed (deliver json_loads h (ToSensor key m))"
  by (auto simp add: keyed_def message_received_def set_event_def store_of_def
        split: option.splits if_splits)

lemma keyed_deliver: "keyed h \<Longrightarrow> keyed (deliver json_loads h d)"
  by (cases d) (simp_all add: keyed_router keyed_sensor del: deliver.simps(2))

lemma keyed_run: "keyed h \<Longrightarrow> keyed (run json_loads h ds)"
  unfolding run_def by (induction ds arbitrary: h) (simp_all add: keyed_deliver)

lemma keyed_init: "keyed hass_init"
  by (simp add: keyed_def hass_init_def store_of_def)

lemma del_timestamp_restrict: "del_timestamp ev = ev |` (- {''timestamp''})"
  by (rule ext) (simp add: del_timestamp_def restrict_map_def)

lemma new_router:
  assumes "json_loads (msg_payload m) = Some payload"
    and "store_of h n = None"
    and "store_of (snd (async_sensor_event_received json_loads h m)) n = Some s"
  shows "self_event s = del_timestamp payload"
proof -
  have a: "store_of (h\<lparr>data_arwn := Some (store_of h)\<rparr>) n = None"
    using assms(2) by (simp add: store_of_start)
  show ?thesis
    using assms new_foldl_register [OF a]
    by (auto simp add: async_sensor_event_received_def Let_def split: sum.splits if_splits)
qed

text \<open>The definitions that evaluate a run on concrete messages.\<close>

lemmas evaluate =
  discover_sensors_def index_def get_def split_def ArwnSensor_init_def Let_def
  async_sensor_event_received_def message_received_def register_def set_event_def
  store_of_def del_timestamp_def hass_init_def run_def slug_def slugify_def isalnum_def
  lower_def state_def

section \<open>The claims\<close>

subsection \<open>The registry\<close>

text \<open>
  C1, as amended. The store is keyed by the sensor's display name, not by the identity
  that \<open>slug\<close> derives from it. In every run, from any state of the host: the sensors
  given to the host are given under keys that the store did not have, each key once; the
  store gains exactly these keys and loses none; a sensor that was in the store is still
  there, the same but for its event, which only its own callback replaces. The router's
  callback leaves every sensor that was in the store as it was. In a run from the initial
  state each sensor is stored under its name.
\<close>

theorem registry_at_most_once_per_name:
  "(\<exists>new. added_entities (run json_loads h ds) = added_entities h @ new
       \<and> distinct new
       \<and> set new \<inter> dom (store_of h) = {}
       \<and> dom (store_of (run json_loads h ds)) = dom (store_of h) \<union> set new
       \<and> (\<forall>n\<in>dom (store_of h). \<exists>s s'. store_of h n = Some s
             \<and> store_of (run json_loads h ds) n = Some s'
             \<and> s'\<lparr>self_event := self_event s\<rparr> = s))
   \<and> (\<forall>n\<in>dom (store_of h).
         store_of (snd (async_sensor_event_received json_loads h m)) n = store_of h n)
   \<and> (\<forall>n s. store_of (run json_loads hass_init ds) n = Some s \<longrightarrow> self_name s = n)"
proof (intro conjI)
  show "\<exists>new. added_entities (run json_loads h ds) = added_entities h @ new
       \<and> distinct new
       \<and> set new \<inter> dom (store_of h) = {}
       \<and> dom (store_of (run json_loads h ds)) = dom (store_of h) \<union> set new
       \<and> (\<forall>n\<in>dom (store_of h). \<exists>s s'. store_of h n = Some s
             \<and> store_of (run json_loads h ds) n = Some s'
             \<and> s'\<lparr>self_event := self_event s\<rparr> = s)"
    using grows_run [of h json_loads ds] unfolding grows_def .
  show "\<forall>n\<in>dom (store_of h).
         store_of (snd (async_sensor_event_received json_loads h m)) n = store_of h n"
    by (auto simp add: keeps_router)
  show "\<forall>n s. store_of (run json_loads hass_init ds) n = Some s \<longrightarrow> self_name s = n"
    using keyed_run [OF keyed_init, of json_loads ds] unfolding keyed_def .
qed

text \<open>
  After a first message on \<^verbatim>\<open>arwn/barometer\<close> the store holds the sensor ``Barometer'';
  a second message on the topic leaves it as it is and gives the host nothing.
\<close>

theorem registry_at_most_once_per_name_witness:
  "''Barometer'' \<in> dom (store_of (run [''{}'' \<mapsto> Map.empty] hass_init
       [ToRouter \<lparr>msg_topic = ''arwn/barometer'', msg_payload = ''{}''\<rparr>]))
   \<and> store_of (snd (async_sensor_event_received [''{}'' \<mapsto> Map.empty]
        (run [''{}'' \<mapsto> Map.empty] hass_init
           [ToRouter \<lparr>msg_topic = ''arwn/barometer'', msg_payload = ''{}''\<rparr>])
        \<lparr>msg_topic = ''arwn/barometer'', msg_payload = ''{}''\<rparr>)) ''Barometer''
     = store_of (run [''{}'' \<mapsto> Map.empty] hass_init
         [ToRouter \<lparr>msg_topic = ''arwn/barometer'', msg_payload = ''{}''\<rparr>]) ''Barometer''
   \<and> added_entities (run [''{}'' \<mapsto> Map.empty] hass_init
        [ToRouter \<lparr>msg_topic = ''arwn/barometer'', msg_payload = ''{}''\<rparr>,
         ToRouter \<lparr>msg_topic = ''arwn/barometer'', msg_payload = ''{}''\<rparr>]) = [''Barometer'']
   \<and> map_option self_name (store_of (run [''{}'' \<mapsto> Map.empty] hass_init
        [ToRouter \<lparr>msg_topic = ''arwn/barometer'', msg_payload = ''{}''\<rparr>]) ''Barometer'')
     = Some ''Barometer''"
proof -
  let ?L = "[''{}'' \<mapsto> Map.empty] :: string \<Rightarrow> py_dict option"
  let ?m = "\<lparr>msg_topic = ''arwn/barometer'', msg_payload = ''{}''\<rparr>"
  let ?h = "run ?L hass_init [ToRouter ?m]"
  have a: "''Barometer'' \<in> dom (store_of ?h)"
    by (simp add: evaluate)
  from registry_at_most_once_per_name [of ?L ?h "[]" ?m]
  have "\<forall>n\<in>dom (store_of ?h).
          store_of (snd (async_sensor_event_received ?L ?h ?m)) n = store_of ?h n"
    by blast
  with a have b: "store_of (snd (async_sensor_event_received ?L ?h ?m)) ''Barometer''
                    = store_of ?h ''Barometer''"
    by blast
  have c: "added_entities (run ?L hass_init [ToRouter ?m, ToRouter ?m]) = [''Barometer'']"
    by (simp add: evaluate)
  obtain s where s: "store_of ?h ''Barometer'' = Some s"
    using a by blast
  from registry_at_most_once_per_name [of ?L hass_init "[ToRouter ?m]" ?m] s
  have "self_name s = ''Barometer''"
    by blast
  with s have d: "map_option self_name (store_of ?h ''Barometer'') = Some ''Barometer''"
    by simp
  from a b c d show ?thesis
    by blast
qed

text \<open>
  C1 as the spec states it fails: the names ``Backyard'' and ``backyard'' differ and have
  one identity, and a message for each of them puts two sensors with that identity into
  the store and gives both to the host.
\<close>

theorem registry_two_names_one_identity:
  "slug ''Backyard'' = slug ''backyard''
   \<and> added_entities (run [''{}'' \<mapsto> Map.empty] hass_init
        [ToRouter \<lparr>msg_topic = ''arwn/temperature/Backyard'', msg_payload = ''{}''\<rparr>,
         ToRouter \<lparr>msg_topic = ''arwn/temperature/backyard'', msg_payload = ''{}''\<rparr>])
       = [''Backyard'', ''backyard'']
   \<and> map_option self_entity_id (store_of (run [''{}'' \<mapsto> Map.empty] hass_init
        [ToRouter \<lparr>msg_topic = ''arwn/temperature/Backyard'', msg_payload = ''{}''\<rparr>,
         ToRouter \<lparr>msg_topic = ''arwn/temperature/backyard'', msg_payload = ''{}''\<rparr>])
        ''Backyard'')
       = Some ''sensor.arwn_backyard''
   \<and> map_option self_entity_id (store_of (run [''{}'' \<mapsto> Map.empty] hass_init
        [ToRouter \<lparr>msg_topic = ''arwn/temperature/Backyard'', msg_payload = ''{}''\<rparr>,
         ToRouter \<lparr>msg_topic = ''arwn/temperature/backyard'', msg_payload = ''{}''\<rparr>])
        ''backyard'')
       = Some ''sensor.arwn_backyard''"
  by (simp add: evaluate)

subsection \<open>Classification\<close>

text \<open>
  C2 fails on the code. \<^verbatim>\<open>discover_sensors\<close> reads \<^verbatim>\<open>parts[1]\<close>, and for the domains
  temperature and moisture \<^verbatim>\<open>parts[2]\<close>, without looking at the length of \<^verbatim>\<open>parts\<close>
  (the rain branch does look): a topic of one segment, and a temperature or moisture
  topic of two, raise IndexError where the claim promises the empty sequence.
\<close>

theorem discover_short_topic_raises:
  "discover_sensors ''arwn/temperature'' Map.empty = Inl IndexError
   \<and> discover_sensors ''arwn/moisture'' Map.empty = Inl IndexError
   \<and> discover_sensors ''arwn'' Map.empty = Inl IndexError"
  by (simp add: discover_sensors_def index_def get_def split_def)

text \<open>
  C4. A topic whose second segment is \<^verbatim>\<open>temperature\<close> and that has a third segment gives
  exactly one sensor, named by the third segment, with state key \<^verbatim>\<open>temp\<close>; its unit is
  the Fahrenheit label when the payload holds the string \<^verbatim>\<open>"F"\<close> under \<^verbatim>\<open>units\<close>, and
  the Celsius label for any other value and when \<^verbatim>\<open>units\<close> is absent.
\<close>

theorem discover_temperature_unit:
  assumes "split topic CHR ''/'' = ns # ''temperature'' # nm # rest"
  shows "\<exists>s. discover_sensors topic payload = Inr (Single s)
           \<and> self_name s = nm \<and> self_state_key s = ''temp''
           \<and> self_unit_of_measurement s =
               (if payload ''units'' = Some (JStr ''F'') then JStr TEMP_FAHRENHEIT
                else JStr TEMP_CELSIUS)"
  using assms
  by (auto simp add: discover_sensors_def index_def get_def ArwnSensor_init_def Let_def
        split: option.splits)

theorem discover_temperature_unit_witness:
  "split ''arwn/temperature/backyard'' CHR ''/'' = ''arwn'' # ''temperature'' # ''backyard'' # []
   \<and> (\<exists>s. discover_sensors ''arwn/temperature/backyard'' [''units'' \<mapsto> JStr ''F'']
             = Inr (Single s)
           \<and> self_name s = ''backyard'' \<and> self_state_key s = ''temp''
           \<and> self_unit_of_measurement s = JStr TEMP_FAHRENHEIT)
   \<and> (\<exists>s. discover_sensors ''arwn/temperature/backyard'' [''units'' \<mapsto> JStr ''C'']
             = Inr (Single s)
           \<and> self_name s = ''backyard'' \<and> self_state_key s = ''temp''
           \<and> self_unit_of_measurement s = JStr TEMP_CELSIUS)"
proof -
  have sp: "split ''arwn/temperature/backyard'' CHR ''/''
              = ''arwn'' # ''temperature'' # ''backyard'' # []"
    by (simp add: split_def)
  from discover_temperature_unit [OF sp, of "[''units'' \<mapsto> JStr ''F'']"]
    discover_temperature_unit [OF sp, of "[''units'' \<mapsto> JStr ''C'']"] sp
  show ?thesis
    by simp
qed

text \<open>
  C5. For a topic whose second segment is \<^verbatim>\<open>rain\<close>: when a third segment exists and is
  \<^verbatim>\<open>today\<close>, exactly one sensor, ``Rain Since Midnight'', with state key
  \<^verbatim>\<open>since_midnight\<close> and unit \<^verbatim>\<open>in\<close>; otherwise exactly two, ``Total Rainfall'' with
  state key \<^verbatim>\<open>total\<close> and ``Rainfall Rate'' with state key \<^verbatim>\<open>rate\<close>, both with the
  payload's value under \<^verbatim>\<open>units\<close> as unit, the empty string when there is none.
\<close>

theorem discover_rain_descriptors:
  assumes "split topic CHR ''/'' = ns # ''rain'' # rest"
  shows "if (\<exists>more. rest = ''today'' # more)
         then (\<exists>s. discover_sensors topic payload = Inr (Single s)
                 \<and> self_name s = ''Rain Since Midnight''
                 \<and> self_state_key s = ''since_midnight''
                 \<and> self_unit_of_measurement s = JStr ''in'')
         else (\<exists>a b. discover_sensors topic payload = Inr (Tuple [a, b])
                 \<and> self_name a = ''Total Rainfall'' \<and> self_state_key a = ''total''
                 \<and> self_name b = ''Rainfall Rate'' \<and> self_state_key b = ''rate''
                 \<and> self_unit_of_measurement a
                     = (case payload ''units'' of None \<Rightarrow> JStr '''' | Some u \<Rightarrow> u)
                 \<and> self_unit_of_measurement b
                     = (case payload ''units'' of None \<Rightarrow> JStr '''' | Some u \<Rightarrow> u))"
  using assms
  by (cases rest)
     (auto simp add: discover_sensors_def index_def get_def ArwnSensor_init_def Let_def
        split: option.splits)

theorem discover_rain_descriptors_witness:
  "split ''arwn/rain/today'' CHR ''/'' = ''arwn'' # ''rain'' # [''today'']
   \<and> (\<exists>s. discover_sensors ''arwn/rain/today'' [''units'' \<mapsto> JStr ''mm''] = Inr (Single s)
           \<and> self_name s = ''Rain Since Midnight''
           \<and> self_state_key s = ''since_midnight''
           \<and> self_unit_of_measurement s = JStr ''in'')
   \<and> split ''arwn/rain'' CHR ''/'' = ''arwn'' # ''rain'' # []
   \<and> (\<exists>a b. discover_sensors ''arwn/rain'' [''units'' \<mapsto> JStr ''mm''] = Inr (Tuple [a, b])
           \<and> self_name a = ''Total Rainfall'' \<and> self_state_key a = ''total''
           \<and> self_name b = ''Rainfall Rate'' \<and> self_state_key b = ''rate''
           \<and> self_unit_of_measurement a = JStr ''mm''
           \<and> self_unit_of_measurement b = JStr ''mm'')"
proof -
  have today: "split ''arwn/rain/today'' CHR ''/'' = ''arwn'' # ''rain'' # [''today'']"
    by (simp add: split_def)
  have total: "split ''arwn/rain'' CHR ''/'' = ''arwn'' # ''rain'' # []"
    by (simp add: split_def)
  from discover_rain_descriptors [OF today, of "[''units'' \<mapsto> JStr ''mm'']"]
    discover_rain_descriptors [OF total, of "[''units'' \<mapsto> JStr ''mm'']"] today total
  show ?thesis
    by simp
qed

text \<open>
  C6. A topic whose second segment is \<^verbatim>\<open>wind\<close> gives, for every payload, exactly three
  sensors: ``Wind Speed'' with state key \<^verbatim>\<open>speed\<close>, ``Wind Gust'' with state key
  \<^verbatim>\<open>gust\<close> and ``Wind Direction'' with state key \<^verbatim>\<open>direction\<close>. The unit of the
  direction is the degree symbol whatever the payload holds; speed and gust have the
  payload's value under \<^verbatim>\<open>units\<close>, the empty string when there is none.
\<close>

theorem discover_wind_descriptors:
  assumes "split topic CHR ''/'' = ns # ''wind'' # rest"
  shows "\<exists>a b c. discover_sensors topic payload = Inr (Tuple [a, b, c])
           \<and> self_name a = ''Wind Speed'' \<and> self_state_key a = ''speed''
           \<and> self_name b = ''Wind Gust'' \<and> self_state_key b = ''gust''
           \<and> self_name c = ''Wind Direction'' \<and> self_state_key c = ''direction''
           \<and> self_unit_of_measurement c = JStr DEGREE
           \<and> self_unit_of_measurement a
               = (case payload ''units'' of None \<Rightarrow> JStr '''' | Some u \<Rightarrow> u)
           \<and> self_unit_of_measurement b
               = (case payload ''units'' of None \<Rightarrow> JStr '''' | Some u \<Rightarrow> u)"
  using assms
  by (auto simp add: discover_sensors_def index_def get_def ArwnSensor_init_def Let_def
        split: option.splits)

theorem discover_wind_descriptors_witness:
  "split ''arwn/wind'' CHR ''/'' = ''arwn'' # ''wind'' # []
   \<and> (\<exists>a b c. discover_sensors ''arwn/wind'' [''units'' \<mapsto> JStr ''mph''] = Inr (Tuple [a, b, c])
           \<and> self_name a = ''Wind Speed'' \<and> self_state_key a = ''speed''
           \<and> self_name b = ''Wind Gust'' \<and> self_state_key b = ''gust''
           \<and> self_name c = ''Wind Direction'' \<and> self_state_key c = ''direction''
           \<and> self_unit_of_measurement c = JStr DEGREE
           \<and> self_unit_of_measurement a = JStr ''mph''
           \<and> self_unit_of_measurement b = JStr ''mph'')"
proof -
  have sp: "split ''arwn/wind'' CHR ''/'' = ''arwn'' # ''wind'' # []"
    by (simp add: split_def)
  from discover_wind_descriptors [OF sp, of "[''units'' \<mapsto> JStr ''mph'']"] sp
  show ?thesis
    by simp
qed

text \<open>
  C10. The result of \<^verbatim>\<open>discover_sensors\<close> depends on the topic and on what the payload
  holds under \<^verbatim>\<open>units\<close>, and on nothing else: two payloads with the same value there, or
  both with none, give the same result for every topic, be it sensors or an exception.
\<close>

theorem discover_reads_units_only:
  assumes "payload ''units'' = payload' ''units''"
  shows "discover_sensors topic payload = discover_sensors topic payload'"
  using assms by (simp add: discover_sensors_def get_def)

theorem discover_reads_units_only_witness:
  "[''units'' \<mapsto> JStr ''F'', ''temp'' \<mapsto> JNum 72.5] ''units''
     = [''units'' \<mapsto> JStr ''F'', ''temp'' \<mapsto> JNum 40, ''dewpoint'' \<mapsto> JNum 35] ''units''
   \<and> discover_sensors ''arwn/temperature/backyard''
        [''units'' \<mapsto> JStr ''F'', ''temp'' \<mapsto> JNum 72.5]
     = discover_sensors ''arwn/temperature/backyard''
        [''units'' \<mapsto> JStr ''F'', ''temp'' \<mapsto> JNum 40, ''dewpoint'' \<mapsto> JNum 35]"
proof -
  have u: "[''units'' \<mapsto> JStr ''F'', ''temp'' \<mapsto> JNum 72.5] ''units''
     = [''units'' \<mapsto> JStr ''F'', ''temp'' \<mapsto> JNum 40, ''dewpoint'' \<mapsto> JNum 35] ''units''"
    by simp
  from discover_reads_units_only
    [of "[''units'' \<mapsto> JStr ''F'', ''temp'' \<mapsto> JNum 72.5]"
        "[''units'' \<mapsto> JStr ''F'', ''temp'' \<mapsto> JNum 40, ''dewpoint'' \<mapsto> JNum 35]"
        "''arwn/temperature/backyard''"] u
  show ?thesis
    by blast
qed

subsection \<open>Payloads that do not decode\<close>

text \<open>
  C3, as amended. Neither callback catches the exception of \<^verbatim>\<open>json.loads\<close>, and neither
  logs it. For a message whose payload does not decode, the router's callback and a
  sensor's own callback raise JSONDecodeError to their caller, and change nothing: the
  store, every sensor, the log and what the host has been given are as before. So a run
  goes on after such a message as if it had not been delivered.
\<close>

theorem malformed_payload_raises_unchanged:
  assumes "json_loads (msg_payload m) = None"
  shows "async_sensor_event_received json_loads h m = (Inl JSONDecodeError, h)
       \<and> message_received json_loads self m = (Inl JSONDecodeError, self, [])
       \<and> run json_loads h (ToRouter m # ds) = run json_loads h ds
       \<and> run json_loads h (ToSensor key m # ds) = run json_loads h ds"
proof -
  have a: "async_sensor_event_received json_loads h m = (Inl JSONDecodeError, h)"
    using assms by (simp add: async_sensor_event_received_def)
  have b: "message_received json_loads s m = (Inl JSONDecodeError, s, [])" for s
    using assms by (simp add: message_received_def)
  have c: "deliver json_loads h (ToSensor key m) = h"
  proof (cases "store_of h key")
    case None
    then show ?thesis
      by simp
  next
    case (Some s)
    then obtain st where st: "data_arwn h = Some st" "st key = Some s"
      by (auto simp add: store_of_def split: option.splits)
    then have "st(key \<mapsto> s) = st"
      by (simp add: map_upd_triv)
    with st Some show ?thesis
      by (simp add: b store_of_def)
  qed
  show ?thesis
    using a b c by (simp add: run_def)
qed

theorem malformed_payload_raises_unchanged_witness:
  "([''{}'' \<mapsto> Map.empty] :: string \<Rightarrow> py_dict option)
      (msg_payload \<lparr>msg_topic = ''arwn/barometer'', msg_payload = ''{''\<rparr>) = None
   \<and> async_sensor_event_received [''{}'' \<mapsto> Map.empty]
        (run [''{}'' \<mapsto> Map.empty] hass_init
           [ToRouter \<lparr>msg_topic = ''arwn/barometer'', msg_payload = ''{}''\<rparr>])
        \<lparr>msg_topic = ''arwn/barometer'', msg_payload = ''{''\<rparr>
     = (Inl JSONDecodeError,
        run [''{}'' \<mapsto> Map.empty] hass_init
           [ToRouter \<lparr>msg_topic = ''arwn/barometer'', msg_payload = ''{}''\<rparr>])
   \<and> run [''{}'' \<mapsto> Map.empty] hass_init
        [ToRouter \<lparr>msg_topic = ''arwn/barometer'', msg_payload = ''{''\<rparr>,
         ToRouter \<lparr>msg_topic = ''arwn/barometer'', msg_payload = ''{}''\<rparr>]
     = run [''{}'' \<mapsto> Map.empty] hass_init
        [ToRouter \<lparr>msg_topic = ''arwn/barometer'', msg_payload = ''{}''\<rparr>]"
proof -
  let ?L = "[''{}'' \<mapsto> Map.empty] :: string \<Rightarrow> py_dict option"
  let ?bad = "\<lparr>msg_topic = ''arwn/barometer'', msg_payload = ''{''\<rparr>"
  let ?good = "\<lparr>msg_topic = ''arwn/barometer'', msg_payload = ''{}''\<rparr>"
  have a: "?L (msg_payload ?bad) = None"
    by simp
  from a have b: "async_sensor_event_received ?L (run ?L hass_init [ToRouter ?good]) ?bad
                    = (Inl JSONDecodeError, run ?L hass_init [ToRouter ?good])"
    using malformed_payload_raises_unchanged
      [where json_loads = ?L and m = ?bad and h = "run ?L hass_init [ToRouter ?good]"]
    by blast
  from a have c: "run ?L hass_init [ToRouter ?bad, ToRouter ?good]
                    = run ?L hass_init [ToRouter ?good]"
    using malformed_payload_raises_unchanged
      [where json_loads = ?L and m = ?bad and h = hass_init and ds = "[ToRouter ?good]"]
    by blast
  show ?thesis
    by (intro conjI a b c)
qed

text \<open>
  C3 as the spec states it fails: on the payload \<^verbatim>\<open>{\<close> the router's callback does not
  end normally but with JSONDecodeError, which its caller receives, and the log is
  empty.
\<close>

theorem malformed_payload_propagates:
  "fst (async_sensor_event_received [''{}'' \<mapsto> Map.empty] hass_init
          \<lparr>msg_topic = ''arwn/temperature/backyard'', msg_payload = ''{''\<rparr>)
     = Inl JSONDecodeError
   \<and> debug_log (snd (async_sensor_event_received [''{}'' \<mapsto> Map.empty] hass_init
          \<lparr>msg_topic = ''arwn/temperature/backyard'', msg_payload = ''{''\<rparr>)) = []"
  by (simp add: evaluate)

subsection \<open>Updates of a sensor\<close>

text \<open>
  C7. An update is what both callbacks do with a decoded payload: delete the key
  \<^verbatim>\<open>timestamp\<close> if it is there, then \<^verbatim>\<open>set_event\<close>. After a sensor's callback has run
  on a payload, the sensor's event is the payload without the key \<^verbatim>\<open>timestamp\<close> and
  nothing else, whatever the event was before; the key \<^verbatim>\<open>timestamp\<close> is not in it. The
  same holds for the event of every sensor that the router's callback puts into the
  store on that payload.
\<close>

theorem update_replaces_event_without_timestamp:
  assumes "json_loads (msg_payload m) = Some payload"
  shows "self_event (fst (snd (message_received json_loads self m)))
           = payload |` (- {''timestamp''})
       \<and> ''timestamp'' \<notin> dom (self_event (fst (snd (message_received json_loads self m))))
       \<and> (\<forall>n s. store_of h n = None
              \<and> store_of (snd (async_sensor_event_received json_loads h m)) n = Some s
            \<longrightarrow> self_event s = payload |` (- {''timestamp''}))"
proof -
  have a: "self_event (fst (snd (message_received json_loads self m)))
             = payload |` (- {''timestamp''})"
    using assms by (simp add: message_received_def set_event_def del_timestamp_restrict)
  then have b: "''timestamp'' \<notin> dom (self_event (fst (snd (message_received json_loads self m))))"
    by simp
  have c: "\<forall>n s. store_of h n = None
              \<and> store_of (snd (async_sensor_event_received json_loads h m)) n = Some s
            \<longrightarrow> self_event s = payload |` (- {''timestamp''})"
    using new_router [of json_loads m payload h] assms
    by (auto simp add: del_timestamp_restrict)
  from a b c show ?thesis
    by blast
qed

text \<open>
  A sensor whose event holds the key \<^verbatim>\<open>old\<close> receives a payload with a timestamp and a
  pressure: afterwards its event holds the pressure, no timestamp, and no \<^verbatim>\<open>old\<close>. The
  router, from the initial state, stores the sensor ``Barometer'' with the same event.
\<close>

theorem update_replaces_event_without_timestamp_witness:
  \<open>[''{"timestamp":1,"pressure":30}'' \<mapsto> [''timestamp'' \<mapsto> JNum 1, ''pressure'' \<mapsto> JNum 30]]
      (msg_payload \<lparr>msg_topic = ''arwn/barometer'', msg_payload = ''{"timestamp":1,"pressure":30}''\<rparr>)
     = Some [''timestamp'' \<mapsto> JNum 1, ''pressure'' \<mapsto> JNum 30]
   \<and> self_event (fst (snd (message_received
        [''{"timestamp":1,"pressure":30}'' \<mapsto> [''timestamp'' \<mapsto> JNum 1, ''pressure'' \<mapsto> JNum 30]]
        ((ArwnSensor_init ''Barometer'' ''pressure'' (JStr '''') ''arwn/barometer''
           (Some ''mdi:thermometer-lines''))\<lparr>self_event := [''old'' \<mapsto> JNull]\<rparr>)
        \<lparr>msg_topic = ''arwn/barometer'', msg_payload = ''{"timestamp":1,"pressure":30}''\<rparr>)))
     = [''timestamp'' \<mapsto> JNum 1, ''pressure'' \<mapsto> JNum 30] |` (- {''timestamp''})
   \<and> ([''timestamp'' \<mapsto> JNum 1, ''pressure'' \<mapsto> JNum 30] |` (- {''timestamp''})) ''timestamp''
     = None
   \<and> ([''timestamp'' \<mapsto> JNum 1, ''pressure'' \<mapsto> JNum 30] |` (- {''timestamp''})) ''pressure''
     = Some (JNum 30)
   \<and> ([''timestamp'' \<mapsto> JNum 1, ''pressure'' \<mapsto> JNum 30] |` (- {''timestamp''})) ''old''
     = None
   \<and> store_of hass_init ''Barometer'' = None
   \<and> map_option self_event (store_of (snd (async_sensor_event_received
        [''{"timestamp":1,"pressure":30}'' \<mapsto> [''timestamp'' \<mapsto> JNum 1, ''pressure'' \<mapsto> JNum 30]]
        hass_init
        \<lparr>msg_topic = ''arwn/barometer'', msg_payload = ''{"timestamp":1,"pressure":30}''\<rparr>))
        ''Barometer'')
     = Some ([''timestamp'' \<mapsto> JNum 1, ''pressure'' \<mapsto> JNum 30] |` (- {''timestamp''}))\<close>
proof -
  let ?p = \<open>[''timestamp'' \<mapsto> JNum 1, ''pressure'' \<mapsto> JNum 30] :: py_dict\<close>
  let ?L = \<open>[''{"timestamp":1,"pressure":30}'' \<mapsto> ?p] :: string \<Rightarrow> py_dict option\<close>
  let ?m = \<open>\<lparr>msg_topic = ''arwn/barometer'', msg_payload = ''{"timestamp":1,"pressure":30}''\<rparr>\<close>
  let ?self = "(ArwnSensor_init ''Barometer'' ''pressure'' (JStr '''') ''arwn/barometer''
           (Some ''mdi:thermometer-lines''))\<lparr>self_event := [''old'' \<mapsto> JNull]\<rparr>"
  have a: "?L (msg_payload ?m) = Some ?p"
    by simp
  note t = update_replaces_event_without_timestamp [of ?L ?m ?p ?self hass_init, OF a]
  from t have b: "self_event (fst (snd (message_received ?L ?self ?m))) = ?p |` (- {''timestamp''})"
    by blast
  have c: "(?p |` (- {''timestamp''})) ''timestamp'' = None"
    "(?p |` (- {''timestamp''})) ''pressure'' = Some (JNum 30)"
    "(?p |` (- {''timestamp''})) ''old'' = None"
    by (simp_all add: restrict_map_def)
  have d: "store_of hass_init ''Barometer'' = None"
    by (simp add: store_of_def hass_init_def)
  obtain s where s: "store_of (snd (async_sensor_event_received ?L hass_init ?m)) ''Barometer'' = Some s"
    by (simp add: evaluate)
  with t d have "self_event s = ?p |` (- {''timestamp''})"
    by blast
  with s have e: "map_option self_event
       (store_of (snd (async_sensor_event_received ?L hass_init ?m)) ''Barometer'')
     = Some (?p |` (- {''timestamp''}))"
    by simp
  show ?thesis
    by (intro conjI a b c d e)
qed

text \<open>
  C8. Updating a sensor twice with the same payload changes nothing the second time:
  after a second \<^verbatim>\<open>set_event\<close> with the same event, and after a second delivery of
  the same message to the sensor's callback, the sensor, and so its attributes, is what
  it was after the first.
\<close>

theorem update_twice_same_attributes:
  "fst (set_event (fst (set_event self ev)) ev) = fst (set_event self ev)
   \<and> fst (snd (message_received json_loads (fst (snd (message_received json_loads self m))) m))
     = fst (snd (message_received json_loads self m))
   \<and> state_attributes
        (fst (snd (message_received json_loads (fst (snd (message_received json_loads self m))) m)))
     = state_attributes (fst (snd (message_received json_loads self m)))"
  by (simp add: message_received_def set_event_def state_attributes_def split: option.splits)

subsection \<open>End to end\<close>

text \<open>
  C9. From the initial state, the message on \<^verbatim>\<open>arwn/temperature/backyard\<close> with the
  payload \<^verbatim>\<open>{"units":"F","temp":72.5}\<close> is handled without an exception and leaves a
  store with exactly one sensor, whose entity id is \<^verbatim>\<open>sensor.arwn_backyard\<close>, whose state
  is 72.5 and whose unit is the Fahrenheit label.
\<close>

theorem end_to_end_backyard:
  \<open>fst (async_sensor_event_received
      [''{"units":"F","temp":72.5}'' \<mapsto> [''units'' \<mapsto> JStr ''F'', ''temp'' \<mapsto> JNum 72.5]]
      hass_init
      \<lparr>msg_topic = ''arwn/temperature/backyard'', msg_payload = ''{"units":"F","temp":72.5}''\<rparr>)
     = Inr ()
   \<and> dom (store_of (snd (async_sensor_event_received
      [''{"units":"F","temp":72.5}'' \<mapsto> [''units'' \<mapsto> JStr ''F'', ''temp'' \<mapsto> JNum 72.5]]
      hass_init
      \<lparr>msg_topic = ''arwn/temperature/backyard'', msg_payload = ''{"units":"F","temp":72.5}''\<rparr>)))
     = {''backyard''}
   \<and> map_option self_entity_id (store_of (snd (async_sensor_event_received
      [''{"units":"F","temp":72.5}'' \<mapsto> [''units'' \<mapsto> JStr ''F'', ''temp'' \<mapsto> JNum 72.5]]
      hass_init
      \<lparr>msg_topic = ''arwn/temperature/backyard'', msg_payload = ''{"units":"F","temp":72.5}''\<rparr>))
      ''backyard'') = Some ''sensor.arwn_backyard''
   \<and> map_option state (store_of (snd (async_sensor_event_received
      [''{"units":"F","temp":72.5}'' \<mapsto> [''units'' \<mapsto> JStr ''F'', ''temp'' \<mapsto> JNum 72.5]]
      hass_init
      \<lparr>msg_topic = ''arwn/temperature/backyard'', msg_payload = ''{"units":"F","temp":72.5}''\<rparr>))
      ''backyard'') = Some (Some (JNum 72.5))
   \<and> map_option self_unit_of_measurement (store_of (snd (async_sensor_event_received
      [''{"units":"F","temp":72.5}'' \<mapsto> [''units'' \<mapsto> JStr ''F'', ''temp'' \<mapsto> JNum 72.5]]
      hass_init
      \<lparr>msg_topic = ''arwn/temperature/backyard'', msg_payload = ''{"units":"F","temp":72.5}''\<rparr>))
      ''backyard'') = Some (JStr TEMP_FAHRENHEIT)\<close>
  by (simp add: evaluate)

end
